theory Spec2Isabelle
  imports Complex_Main
begin


section \<open>JavaScript values and the runtime\<close>

text \<open>
  A JavaScript number is either \<open>NaN\<close> or a finite value. Finite values are exact
  rationals here: the rounding of IEEE doubles and the two infinities are outside the
  model (prices are \<open>numeric(10,2)\<close> columns and quantities are small integers).
\<close>

datatype jsnum = NaN | Fin rat

fun js_mul :: "jsnum \<Rightarrow> jsnum \<Rightarrow> jsnum" where
  "js_mul (Fin a) (Fin b) = Fin (a * b)"
| "js_mul _ _ = NaN"

fun js_add :: "jsnum \<Rightarrow> jsnum \<Rightarrow> jsnum" where
  "js_add (Fin a) (Fin b) = Fin (a + b)"
| "js_add _ _ = NaN"

text \<open>\<^verbatim>\<open>Math.max(a, b)\<close>: \<open>NaN\<close> as soon as one argument is.\<close>

fun Math_max :: "jsnum \<Rightarrow> jsnum \<Rightarrow> jsnum" where
  "Math_max (Fin a) (Fin b) = Fin (max a b)"
| "Math_max _ _ = NaN"

text \<open>\<^verbatim>\<open>a > b\<close> on numbers: false as soon as one side is \<open>NaN\<close>.\<close>

fun js_gt :: "jsnum \<Rightarrow> jsnum \<Rightarrow> bool" where
  "js_gt (Fin a) (Fin b) = (b < a)"
| "js_gt _ _ = False"

text \<open>
  \<^verbatim>\<open>Number(v || 0)\<close> for \<open>v\<close> of type \<^verbatim>\<open>number | undefined\<close>: the falsy values
  (\<^verbatim>\<open>undefined\<close>, \<open>NaN\<close>, \<open>0\<close>) become \<open>0\<close>, every other number is kept.
\<close>

fun number_or_zero :: "jsnum option \<Rightarrow> jsnum" where
  "number_or_zero None = Fin 0"
| "number_or_zero (Some NaN) = Fin 0"
| "number_or_zero (Some (Fin q)) = (if q = 0 then Fin 0 else Fin q)"

text \<open>
  What the code asks of the JavaScript runtime and of the clock is a parameter of every
  function that uses it: \<^verbatim>\<open>Number\<close> on strings, \<^verbatim>\<open>String\<close> on numbers,
  \<^verbatim>\<open>toFixed(2)\<close>, the parsing of a date string (\<open>None\<close> is \<^verbatim>\<open>Invalid Date\<close>,
  otherwise milliseconds since the epoch), the current instant, the offset of local
  time from UTC in milliseconds (daylight saving changes are outside the model), the
  calendar step \<^verbatim>\<open>setFullYear(getFullYear() + 1)\<close> and \<^verbatim>\<open>toLocaleString\<close>.
\<close>

record runtime =
  Number_str :: "string \<Rightarrow> jsnum"
  String_num :: "jsnum \<Rightarrow> string"
  toFixed2 :: "jsnum \<Rightarrow> string"
  Date_parse :: "string \<Rightarrow> int option"
  Date_now :: int
  tzOffset :: int
  plusOneYear :: "int \<Rightarrow> int"
  toLocaleString :: "int option \<Rightarrow> string"

section \<open>Order pricing (CustomerRequest)\<close>

text \<open>A row of \<^verbatim>\<open>laundry_services\<close> (types/database.ts): both prices are nullable strings.\<close>

record laundry_service =
  s_id :: string
  s_name :: string
  s_description :: "string option"
  s_price_per_item :: "string option"
  s_price_per_pound :: "string option"
  s_is_active :: bool
  s_created_at :: string

text \<open>\<^verbatim>\<open>ServiceQuantities = Record<string, number>\<close>: a missing key reads \<^verbatim>\<open>undefined\<close>.\<close>

type_synonym service_quantities = "string \<rightharpoonup> jsnum"

text \<open>\<^verbatim>\<open>Number(s.price_per_item ?? s.price_per_pound ?? '0')\<close>\<close>

definition unitPrice :: "runtime \<Rightarrow> laundry_service \<Rightarrow> jsnum" where
  "unitPrice rt s =
     Number_str rt (case s_price_per_item s of
                      Some p \<Rightarrow> p
                    | None \<Rightarrow> (case s_price_per_pound s of Some p \<Rightarrow> p | None \<Rightarrow> ''0''))"

text \<open>\<^verbatim>\<open>Math.max(0, Number(quantities[s.id] || 0))\<close>\<close>

definition lineQty :: "service_quantities \<Rightarrow> laundry_service \<Rightarrow> jsnum" where
  "lineQty quantities s = Math_max (Fin 0) (number_or_zero (quantities (s_id s)))"

text \<open>One element of \<^verbatim>\<open>lineTotals\<close>: \<^verbatim>\<open>qty * price\<close>.\<close>

definition lineTotal :: "runtime \<Rightarrow> service_quantities \<Rightarrow> laundry_service \<Rightarrow> jsnum" where
  "lineTotal rt quantities s = js_mul (lineQty quantities s) (unitPrice rt s)"

definition lineTotals :: "runtime \<Rightarrow> laundry_service list \<Rightarrow> service_quantities \<Rightarrow> jsnum list" where
  "lineTotals rt items quantities = map (lineTotal rt quantities) items"

text \<open>\<^verbatim>\<open>lineTotals.reduce((a, b) => a + b, 0)\<close>\<close>

definition total_sum :: "runtime \<Rightarrow> laundry_service list \<Rightarrow> service_quantities \<Rightarrow> jsnum" where
  "total_sum rt items quantities = foldl js_add (Fin 0) (lineTotals rt items quantities)"

text \<open>\<^verbatim>\<open>items.filter((s) => Number(quantities?.[s.id] || 0) > 0)\<close>, in \<^verbatim>\<open>onSubmit\<close> and in
  the order summary.\<close>

definition selected :: "laundry_service list \<Rightarrow> service_quantities \<Rightarrow> laundry_service list" where
  "selected items quantities =
     filter (\<lambda>s. js_gt (number_or_zero (quantities (s_id s))) (Fin 0)) items"


text \<open>A runtime for the concrete instances below: it reads the few strings they use.\<close>

definition rt0 :: runtime where
  "rt0 = \<lparr> Number_str = (\<lambda>s. if s = ''0'' then Fin 0 else if s = ''2.50'' then Fin (5 / 2)
                              else if s = ''1.20'' then Fin (6 / 5) else NaN),
           String_num = (\<lambda>n. if n = Fin 0 then ''0'' else if n = Fin 1 then ''1''
                              else if n = Fin 2 then ''2'' else if n = Fin 3 then ''3'' else ''NaN''),
           toFixed2 = (\<lambda>n. if n = Fin 10 then ''10.00'' else if n = Fin 0 then ''0.00'' else ''NaN''),
           Date_parse = (\<lambda>s. if s = ''2026-11-01'' then Some 1793491200000
                              else if s = ''2026-11-02'' then Some 1793577600000 else None),
           Date_now = 1793613600000,
           tzOffset = 7200000,
           plusOneYear = (\<lambda>t. t + 31536000000),
           toLocaleString = (\<lambda>t. ''11/2/2026, 12:00:00 PM'') \<rparr>"

definition svc1 :: laundry_service where
  "svc1 = \<lparr> s_id = ''svc1'', s_name = ''Wash & Fold'', s_description = None,
            s_price_per_item = Some ''2.50'', s_price_per_pound = None,
            s_is_active = True, s_created_at = ''2026-01-01'' \<rparr>"

definition svc2 :: laundry_service where
  "svc2 = \<lparr> s_id = ''svc2'', s_name = ''Bulk wash'', s_description = None,
            s_price_per_item = None, s_price_per_pound = Some ''1.20'',
            s_is_active = True, s_created_at = ''2026-01-01'' \<rparr>"

definition svc3 :: laundry_service where
  "svc3 = \<lparr> s_id = ''svc3'', s_name = ''Dry cleaning'', s_description = None,
            s_price_per_item = None, s_price_per_pound = None,
            s_is_active = True, s_created_at = ''2026-01-01'' \<rparr>"


section \<open>Strings and regular expressions\<close>

text \<open>
  Strings are lists of characters. The character tables of the runtime (white space,
  letter case) are modelled on ASCII: the Unicode part of \<^verbatim>\<open>\s\<close>, of \<^verbatim>\<open>trim\<close> and of
  \<^verbatim>\<open>toLowerCase\<close> is outside the model.
\<close>

definition is_space :: "char \<Rightarrow> bool" where
  "is_space c = (c \<in> set [CHR 0x09, CHR 0x0A, CHR 0x0B, CHR 0x0C, CHR 0x0D, CHR 0x20])"




definition trim :: "string \<Rightarrow> string" where
  "trim s = rev (dropWhile is_space (rev (dropWhile is_space s)))"



text \<open>
  A regular expression and its matcher by derivatives. Every pattern of
  \<^verbatim>\<open>VALIDATION_PATTERNS\<close> is anchored at both ends, so \<^verbatim>\<open>pattern.test(s)\<close> is a match of
  the whole string.
\<close>

datatype rexp =
    Zero
  | One
  | Atom "char \<Rightarrow> bool"
  | Alt rexp rexp
  | Seq rexp rexp
  | Star rexp

fun nullable :: "rexp \<Rightarrow> bool" where
  "nullable Zero = False"
| "nullable One = True"
| "nullable (Atom p) = False"
| "nullable (Alt r s) = (nullable r \<or> nullable s)"
| "nullable (Seq r s) = (nullable r \<and> nullable s)"
| "nullable (Star r) = True"

fun deriv :: "char \<Rightarrow> rexp \<Rightarrow> rexp" where
  "deriv c Zero = Zero"
| "deriv c One = Zero"
| "deriv c (Atom p) = (if p c then One else Zero)"
| "deriv c (Alt r s) = Alt (deriv c r) (deriv c s)"
| "deriv c (Seq r s) =
     (if nullable r then Alt (Seq (deriv c r) s) (deriv c s) else Seq (deriv c r) s)"
| "deriv c (Star r) = Seq (deriv c r) (Star r)"

fun regex_test :: "rexp \<Rightarrow> string \<Rightarrow> bool" where
  "regex_test r [] = nullable r"
| "regex_test r (c # cs) = regex_test (deriv c r) cs"

text \<open>The quantifiers \<^verbatim>\<open>+\<close>, \<^verbatim>\<open>?\<close> and \<^verbatim>\<open>{n}\<close>.\<close>

definition some_of :: "rexp \<Rightarrow> rexp" where
  "some_of r = Seq r (Star r)"



text \<open>\<^verbatim>\<open>VALIDATION_PATTERNS\<close>: the patterns the request schema uses.\<close>

definition pattern_email :: rexp where
  "pattern_email =
     (let part = some_of (Atom (\<lambda>c. \<not> is_space c \<and> c \<noteq> CHR ''@''))
      in Seq part (Seq (Atom (\<lambda>c. c = CHR ''@''))
           (Seq part (Seq (Atom (\<lambda>c. c = CHR ''.'')) part))))"




section \<open>Validation (lib/validation.ts)\<close>

text \<open>A value of a form field: \<^verbatim>\<open>undefined\<close>, \<^verbatim>\<open>null\<close>, a string or a number.\<close>

datatype jsval = JUndefined | JNull | JStr string | JNum jsnum

text \<open>
  \<^verbatim>\<open>ValidationRule\<close>. An absent optional member is \<open>None\<close> (for \<^verbatim>\<open>required\<close>: \<open>False\<close>, which
  the code does not tell apart from absent). \<^verbatim>\<open>custom\<close> returns \<^verbatim>\<open>string | null\<close>.
\<close>

record validation_rule =
  required :: bool
  minLength :: "nat option"
  maxLength :: "nat option"
  pattern :: "rexp option"
  min_value :: "rat option"
  max_value :: "rat option"
  custom :: "(jsval \<Rightarrow> string option) option"
  message :: "string option"

text \<open>\<^verbatim>\<open>FieldValidationResult\<close> and \<^verbatim>\<open>ValidationResult\<close>.\<close>

record field_result =
  f_isValid :: bool
  f_error :: "string option"



text \<open>\<^verbatim>\<open>String(value)\<close>\<close>

fun js_String :: "runtime \<Rightarrow> jsval \<Rightarrow> string" where
  "js_String rt JUndefined = ''undefined''"
| "js_String rt JNull = ''null''"
| "js_String rt (JStr s) = s"
| "js_String rt (JNum n) = String_num rt n"

text \<open>\<^verbatim>\<open>a < b\<close> on numbers.\<close>

fun js_lt :: "jsnum \<Rightarrow> jsnum \<Rightarrow> bool" where
  "js_lt (Fin a) (Fin b) = (a < b)"
| "js_lt _ _ = False"

text \<open>\<^verbatim>\<open>rules.message || fallback\<close>: an empty message is falsy.\<close>

definition message_or :: "validation_rule \<Rightarrow> string \<Rightarrow> string" where
  "message_or rules fallback =
     (case message rules of None \<Rightarrow> fallback | Some m \<Rightarrow> if m = [] then fallback else m)"

text \<open>\<^verbatim>\<open>VALIDATION_MESSAGES\<close>\<close>

definition MSG_required :: string where
  "MSG_required = ''This field is required''"



definition MSG_pattern :: string where
  "MSG_pattern = ''Please enter a valid format''"

definition MSG_minLength :: "runtime \<Rightarrow> nat \<Rightarrow> string" where
  "MSG_minLength rt n = ''Must be at least '' @ String_num rt (Fin (of_nat n)) @ '' characters long''"

definition MSG_maxLength :: "runtime \<Rightarrow> nat \<Rightarrow> string" where
  "MSG_maxLength rt n =
     ''Must be no more than '' @ String_num rt (Fin (of_nat n)) @ '' characters long''"

definition MSG_min :: "runtime \<Rightarrow> rat \<Rightarrow> string" where
  "MSG_min rt m = ''Must be at least '' @ String_num rt (Fin m)"

definition MSG_max :: "runtime \<Rightarrow> rat \<Rightarrow> string" where
  "MSG_max rt m = ''Must be no more than '' @ String_num rt (Fin m)"

definition invalid :: "string \<Rightarrow> field_result" where
  "invalid e = \<lparr> f_isValid = False, f_error = Some e \<rparr>"

definition valid :: field_result where
  "valid = \<lparr> f_isValid = True, f_error = None \<rparr>"

text \<open>
  \<^verbatim>\<open>typeof value === 'number' || !isNaN(Number(stringValue))\<close>: whether the numeric
  bounds apply.
\<close>

definition is_numeric :: "runtime \<Rightarrow> jsval \<Rightarrow> string \<Rightarrow> bool" where
  "is_numeric rt v stringValue =
     ((case v of JNum n \<Rightarrow> True | _ \<Rightarrow> False) \<or> Number_str rt stringValue \<noteq> NaN)"

text \<open>
  \<^verbatim>\<open>validateField\<close>: the checks in the order of the source, the first failing one
  returns. A length bound of \<open>0\<close> is falsy and switches its check off; an empty string
  returned by \<^verbatim>\<open>custom\<close> is falsy and is no error.
\<close>

definition validateField :: "runtime \<Rightarrow> jsval \<Rightarrow> validation_rule \<Rightarrow> field_result" where
  "validateField rt v rules =
     (if v = JNull \<or> v = JUndefined \<or> v = JStr [] then
        (if required rules then invalid (message_or rules MSG_required) else valid)
      else
        let stringValue = trim (js_String rt v);
            numValue = Number_str rt stringValue
        in
        if required rules \<and> stringValue = [] then invalid (message_or rules MSG_required)
        else if (case minLength rules of
                   Some n \<Rightarrow> n \<noteq> 0 \<and> length stringValue < n | None \<Rightarrow> False)
        then invalid (message_or rules
               (case minLength rules of Some n \<Rightarrow> MSG_minLength rt n | None \<Rightarrow> []))
        else if (case maxLength rules of
                   Some n \<Rightarrow> n \<noteq> 0 \<and> n < length stringValue | None \<Rightarrow> False)
        then invalid (message_or rules
               (case maxLength rules of Some n \<Rightarrow> MSG_maxLength rt n | None \<Rightarrow> []))
        else if is_numeric rt v stringValue \<and>
                (case min_value rules of Some m \<Rightarrow> js_lt numValue (Fin m) | None \<Rightarrow> False)
        then invalid (message_or rules
               (case min_value rules of Some m \<Rightarrow> MSG_min rt m | None \<Rightarrow> []))
        else if is_numeric rt v stringValue \<and>
                (case max_value rules of Some m \<Rightarrow> js_gt numValue (Fin m) | None \<Rightarrow> False)
        then invalid (message_or rules
               (case max_value rules of Some m \<Rightarrow> MSG_max rt m | None \<Rightarrow> []))
        else if (case pattern rules of
                   Some r \<Rightarrow> \<not> regex_test r stringValue | None \<Rightarrow> False)
        then invalid (message_or rules MSG_pattern)
        else (case custom rules of
                None \<Rightarrow> valid
              | Some f \<Rightarrow>
                  (case f v of
                     None \<Rightarrow> valid
                   | Some customError \<Rightarrow>
                       if customError = [] then valid else invalid customError)))"


























section \<open>Request submission (CustomerRequest)\<close>

datatype pickup_time = morning | afternoon | evening

datatype request_status = pending | confirmed | in_progress | completed

datatype toast_type = success | error | info

text \<open>\<^verbatim>\<open>FormInputs\<close>; the optional \<^verbatim>\<open>notes\<close> is the field \<open>notes'\<close>.\<close>

record form_inputs =
  fullName :: string
  email :: string
  phone :: string
  address :: string
  pickupDate :: string
  pickupTime :: pickup_time
  notes' :: "string option"
  quantities :: service_quantities

text \<open>The two insert payloads.\<close>

record request_payload =
  customer_name :: string
  customer_email :: string
  customer_phone :: string
  pickup_address :: string
  pickup_date :: string
  pickup_time_slot :: string
  special_instructions :: "string option"
  status :: request_status
  total_estimated_cost :: string

record request_service_payload =
  request_id :: string
  service_id :: string
  quantity :: jsnum
  estimated_cost :: string

text \<open>
  The store answers each write with an \<^verbatim>\<open>ApiResponse\<close>: \<open>Inl\<close> is \<^verbatim>\<open>{ ok: false, error }\<close>,
  \<open>Inr\<close> is \<^verbatim>\<open>{ ok: true, data }\<close>. Of the created rows the code reads the id only, so the
  data is the id. The line writes run concurrently: each answer comes with the time at
  which it arrives.
\<close>

record submit_store =
  createLaundryRequest :: "request_payload \<Rightarrow> string + string"
  addRequestService :: "request_service_payload \<Rightarrow> nat \<times> (string + string)"

datatype store_write = CreateRequest request_payload | AddService request_service_payload

datatype event = Issued store_write | Settled store_write

text \<open>
  \<^verbatim>\<open>Promise.all\<close>: it rejects with the reason of the promise that rejects first (the
  earliest arrival, the earlier promise among equal arrivals), and otherwise fulfils with
  all values in order.
\<close>

fun first_rejection :: "(nat \<times> (string + 'a)) list \<Rightarrow> (nat \<times> string) option" where
  "first_rejection [] = None"
| "first_rejection ((t, Inr v) # ps) = first_rejection ps"
| "first_rejection ((t, Inl e) # ps) =
     (case first_rejection ps of
        None \<Rightarrow> Some (t, e)
      | Some (t', e') \<Rightarrow> if t' < t then Some (t', e') else Some (t, e))"

definition fulfilled :: "(nat \<times> (string + 'a)) list \<Rightarrow> 'a list" where
  "fulfilled ps = concat (map (\<lambda>p. case snd p of Inr v \<Rightarrow> [v] | Inl e \<Rightarrow> []) ps)"

definition promise_all :: "(nat \<times> (string + 'a)) list \<Rightarrow> string + 'a list" where
  "promise_all ps =
     (case first_rejection ps of Some (t, e) \<Rightarrow> Inl e | None \<Rightarrow> Inr (fulfilled ps))"

text \<open>What the component shows after a submission.\<close>

record submit_state =
  submitError :: "string option"
  submitSuccess :: "string option"
  submitLoading :: bool
  toasts :: "(string \<times> toast_type) list"
  form_reset :: bool

definition slot_label :: "pickup_time \<Rightarrow> string" where
  "slot_label t =
     (if t = morning then ''Morning 8-12''
      else if t = afternoon then ''Afternoon 12-16'' else ''Evening 16-20'')"

text \<open>
  The payload of the request. \<^verbatim>\<open>total\<close> is the memoised total of the watched quantities,
  which at submission are the quantities of the submitted data.
\<close>

definition payload_of :: "runtime \<Rightarrow> laundry_service list \<Rightarrow> form_inputs \<Rightarrow> request_payload" where
  "payload_of rt items data =
     \<lparr> customer_name = fullName data,
       customer_email = email data,
       customer_phone = phone data,
       pickup_address = address data,
       pickup_date = pickupDate data,
       pickup_time_slot = slot_label (pickupTime data),
       special_instructions = notes' data,
       status = pending,
       total_estimated_cost = toFixed2 rt (total_sum rt items (quantities data)) \<rparr>"

definition line_payload ::
  "runtime \<Rightarrow> form_inputs \<Rightarrow> string \<Rightarrow> laundry_service \<Rightarrow> request_service_payload" where
  "line_payload rt data rid s =
     (let qty = number_or_zero (quantities data (s_id s));
          price = unitPrice rt s
      in \<lparr> request_id = rid, service_id = s_id s, quantity = qty,
           estimated_cost = toFixed2 rt (js_mul qty price) \<rparr>)"

text \<open>The \<^verbatim>\<open>catch\<close> branch (\<^verbatim>\<open>e.message || ...\<close>) and the success branch.\<close>

definition submit_failed :: "string \<Rightarrow> submit_state" where
  "submit_failed e =
     \<lparr> submitError = Some (if e = [] then ''Something went wrong'' else e),
       submitSuccess = None,
       submitLoading = False,
       toasts = [(if e = [] then ''Submission failed'' else e, error)],
       form_reset = False \<rparr>"

definition submit_succeeded :: submit_state where
  "submit_succeeded =
     \<lparr> submitError = None,
       submitSuccess = Some ''Request submitted successfully!'',
       submitLoading = False,
       toasts = [(''Request submitted successfully!'', success)],
       form_reset = True \<rparr>"

definition no_service_selected :: submit_state where
  "no_service_selected =
     \<lparr> submitError = Some ''Please select at least one service with quantity > 0.'',
       submitSuccess = None,
       submitLoading = False,
       toasts = [],
       form_reset = False \<rparr>"

text \<open>
  \<^verbatim>\<open>onSubmit\<close>: the state it leaves and the store writes in the order they are issued.
  Every line write is issued before the first answer is awaited, so all of them are in
  the trace whatever their answers are.
\<close>

definition onSubmit ::
  "runtime \<Rightarrow> submit_store \<Rightarrow> laundry_service list \<Rightarrow> form_inputs \<Rightarrow> submit_state \<times> event list" where
  "onSubmit rt st items data =
     (let sel = selected items (quantities data)
      in if sel = [] then (no_service_selected, [])
         else
           let payload = payload_of rt items data;
               created = createLaundryRequest st payload;
               create_events = [Issued (CreateRequest payload), Settled (CreateRequest payload)]
           in case created of
                Inl e \<Rightarrow> (submit_failed e, create_events)
              | Inr rid \<Rightarrow>
                  let lines = map (line_payload rt data rid) sel;
                      line_events = map (\<lambda>l. Issued (AddService l)) lines
                  in (case promise_all (map (addRequestService st) lines) of
                        Inl e \<Rightarrow> (submit_failed e, create_events @ line_events)
                      | Inr rows \<Rightarrow> (submit_succeeded, create_events @ line_events)))"

text \<open>
  \<^verbatim>\<open>handleSubmit(onSubmit)\<close> of the form library runs the rules given to \<^verbatim>\<open>register\<close> and
  calls \<^verbatim>\<open>onSubmit\<close> only when none fails: each text field is required (the empty string
  fails), and a non-empty email must match the pattern.
\<close>

definition field_errors :: "form_inputs \<Rightarrow> (string \<times> string) list" where
  "field_errors data =
     (if fullName data = [] then [(''fullName'', ''Full name is required'')] else []) @
     (if email data = [] then [(''email'', ''Email is required'')]
      else if \<not> regex_test pattern_email (email data) then [(''email'', ''Enter a valid email'')]
      else []) @
     (if phone data = [] then [(''phone'', ''Phone number is required'')] else []) @
     (if address data = [] then [(''address'', ''Address is required'')] else []) @
     (if pickupDate data = [] then [(''pickupDate'', ''Pickup date is required'')] else [])"

definition handleSubmit ::
  "runtime \<Rightarrow> submit_store \<Rightarrow> laundry_service list \<Rightarrow> submit_state \<Rightarrow> form_inputs \<Rightarrow>
     (string \<times> string) list \<times> submit_state \<times> event list" where
  "handleSubmit rt st items before data =
     (if field_errors data = []
      then ([], fst (onSubmit rt st items data), snd (onSubmit rt st items data))
      else (field_errors data, before, []))"

section \<open>Batch status update and CSV export (RequestManagement)\<close>

text \<open>A row of \<^verbatim>\<open>laundry_requests\<close>, with the \<^verbatim>\<open>internal_notes\<close> column of the migration.\<close>

record laundry_request =
  r_id :: string
  r_customer_name :: string
  r_customer_email :: string
  r_customer_phone :: string
  r_pickup_address :: string
  r_pickup_date :: string
  r_pickup_time_slot :: string
  r_special_instructions :: "string option"
  r_status :: request_status
  r_total_estimated_cost :: "string option"
  r_internal_notes :: "string option"
  r_created_at :: string

text \<open>The patch of an update: a member that is \<^verbatim>\<open>undefined\<close> is not sent.\<close>

record request_patch =
  patch_status :: "request_status option"
  patch_internal_notes :: "string option"

text \<open>
  The store of requests: its rows, and for each id whether the store refuses the write to
  it (and with which message). An update of an id that has no row is answered with the
  store's error for that.
\<close>

record request_store =
  rows :: "string \<rightharpoonup> laundry_request"
  write_fault :: "string \<Rightarrow> string option"
  no_row_error :: string

definition apply_patch :: "request_patch \<Rightarrow> laundry_request \<Rightarrow> laundry_request" where
  "apply_patch p r =
     (let r1 = (case patch_status p of Some s \<Rightarrow> r \<lparr> r_status := s \<rparr> | None \<Rightarrow> r)
      in case patch_internal_notes p of
           Some n \<Rightarrow> r1 \<lparr> r_internal_notes := Some n \<rparr>
         | None \<Rightarrow> r1)"

definition updateRequest ::
  "request_store \<Rightarrow> string \<Rightarrow> request_patch \<Rightarrow> (string + laundry_request) \<times> request_store" where
  "updateRequest st i p =
     (case write_fault st i of
        Some e \<Rightarrow> (Inl e, st)
      | None \<Rightarrow>
          (case rows st i of
             None \<Rightarrow> (Inl (no_row_error st), st)
           | Some r \<Rightarrow> (Inr (apply_patch p r), st \<lparr> rows := (rows st)(i \<mapsto> apply_patch p r) \<rparr>)))"

text \<open>The writes of \<^verbatim>\<open>Array.from(selectedRequests).map(...)\<close>, issued in the order of the set.\<close>

fun update_each ::
  "request_store \<Rightarrow> request_patch \<Rightarrow> string list \<Rightarrow> (string + laundry_request) list \<times> request_store" where
  "update_each st p [] = ([], st)"
| "update_each st p (i # ids) =
     (let (r, st') = updateRequest st i p;
          (rs, st'') = update_each st' p ids
      in (r # rs, st''))"

record admin_state =
  selectedRequests :: "string list"
  batchStatus :: request_status
  batchNotes :: string
  showBatchPanel :: bool
  admin_toasts :: "(string \<times> toast_type) list"
  reloads :: nat

definition is_failed :: "string + laundry_request \<Rightarrow> bool" where
  "is_failed r = (case r of Inl e \<Rightarrow> True | Inr d \<Rightarrow> False)"

definition batch_patch :: "admin_state \<Rightarrow> request_patch" where
  "batch_patch s =
     \<lparr> patch_status = Some (batchStatus s),
       patch_internal_notes = (if batchNotes s = [] then None else Some (batchNotes s)) \<rparr>"

text \<open>
  \<^verbatim>\<open>handleBatchStatusUpdate\<close>: the new state of the page, the store after the writes and
  the writes issued. \<^verbatim>\<open>loadRequests\<close> is counted in \<open>reloads\<close>.
\<close>

definition handleBatchStatusUpdate ::
  "runtime \<Rightarrow> request_store \<Rightarrow> admin_state \<Rightarrow>
     admin_state \<times> request_store \<times> (string \<times> request_patch) list" where
  "handleBatchStatusUpdate rt st s =
     (if selectedRequests s = [] then (s, st, [])
      else
        let ids = selectedRequests s;
            results = fst (update_each st (batch_patch s) ids);
            st' = snd (update_each st (batch_patch s) ids);
            failed = filter is_failed results;
            issued = map (\<lambda>i. (i, batch_patch s)) ids
        in if failed = []
           then (s \<lparr> selectedRequests := [], showBatchPanel := False, batchNotes := [],
                     admin_toasts := admin_toasts s @
                       [(''Updated '' @ String_num rt (Fin (of_nat (length ids)))
                           @ '' requests successfully'', success)],
                     reloads := Suc (reloads s) \<rparr>, st', issued)
           else (s \<lparr> admin_toasts := admin_toasts s @
                       [(''Updated ''
                           @ String_num rt (Fin (of_nat (length results) - of_nat (length failed)))
                           @ '' requests, '' @ String_num rt (Fin (of_nat (length failed)))
                           @ '' failed'', error)] \<rparr>, st', issued))"

text \<open>The CSV export.\<close>

definition dquote :: char where
  "dquote = CHR 0x22"

definition newline :: char where
  "newline = CHR 0x0A"

definition csv_headers :: "string list" where
  "csv_headers =
     [''ID'', ''Customer Name'', ''Customer Email'', ''Customer Phone'', ''Pickup Date'',
      ''Pickup Time'', ''Pickup Address'', ''Status'', ''Total Cost'', ''Special Instructions'',
      ''Internal Notes'', ''Created At'']"

definition status_string :: "request_status \<Rightarrow> string" where
  "status_string s =
     (case s of pending \<Rightarrow> ''pending'' | confirmed \<Rightarrow> ''confirmed''
      | in_progress \<Rightarrow> ''in_progress'' | completed \<Rightarrow> ''completed'')"

text \<open>\<^verbatim>\<open>x || ''\<close> on \<^verbatim>\<open>string | null\<close>.\<close>

definition or_empty :: "string option \<Rightarrow> string" where
  "or_empty x = (case x of Some s \<Rightarrow> s | None \<Rightarrow> [])"

text \<open>One row of the export, every field after \<^verbatim>\<open>String(field)\<close>.\<close>

definition csv_row :: "runtime \<Rightarrow> laundry_request \<Rightarrow> string list" where
  "csv_row rt r =
     [r_id r, r_customer_name r, r_customer_email r, r_customer_phone r, r_pickup_date r,
      r_pickup_time_slot r, r_pickup_address r, status_string (r_status r),
      (case r_total_estimated_cost r of
         Some c \<Rightarrow> if c = [] then String_num rt (Fin 0) else c
       | None \<Rightarrow> String_num rt (Fin 0)),
      or_empty (r_special_instructions r),
      or_empty (r_internal_notes r),
      toLocaleString rt (Date_parse rt (r_created_at r))]"

text \<open>\<^verbatim>\<open>`"${String(field).replace(/"/g, '""')}"`\<close>\<close>

definition csv_field :: "string \<Rightarrow> string" where
  "csv_field field =
     [dquote] @ concat (map (\<lambda>c. if c = dquote then [dquote, dquote] else [c]) field) @ [dquote]"

text \<open>\<^verbatim>\<open>Array.prototype.join\<close> on strings.\<close>

fun join :: "string \<Rightarrow> string list \<Rightarrow> string" where
  "join sep [] = []"
| "join sep [x] = x"
| "join sep (x # y # ys) = x @ sep @ join sep (y # ys)"

definition csvContent :: "runtime \<Rightarrow> laundry_request list \<Rightarrow> string" where
  "csvContent rt requests =
     join [newline]
       (map (\<lambda>row. join '','' (map csv_field row)) (csv_headers # map (csv_row rt) requests))"

text \<open>\<^verbatim>\<open>exportToCSV\<close>: the name and the text of the file handed to the browser.\<close>

definition exportToCSV :: "runtime \<Rightarrow> laundry_request list \<Rightarrow> string option \<Rightarrow> string \<times> string" where
  "exportToCSV rt requests filename =
     ((case filename of Some f \<Rightarrow> f | None \<Rightarrow> ''laundry_requests.csv''), csvContent rt requests)"

text \<open>
  Modelled from the spec: \<^verbatim>\<open>parseCSV\<close>, the reader the round trip of the export is stated
  against; the repository has no CSV reader. It is the standard reader of comma separated
  values: a field in double quotes ends at a quote that is not doubled, a doubled quote
  inside it is one quote, commas and line breaks inside it are data; a field without
  quotes ends at the next comma or line break and contains no quote. \<open>None\<close> is a
  malformed text.
\<close>

datatype csv_mode = FieldStart | Plain | Quoted | QuoteSeen | Malformed

type_synonym csv_state = "string list list \<times> string list \<times> string \<times> csv_mode"

definition end_field :: "csv_state \<Rightarrow> csv_state" where
  "end_field st = (case st of (acc, row, fld, m) \<Rightarrow> (acc, rev fld # row, [], FieldStart))"

definition end_row :: "csv_state \<Rightarrow> csv_state" where
  "end_row st = (case st of (acc, row, fld, m) \<Rightarrow> (rev (rev fld # row) # acc, [], [], FieldStart))"

fun csv_step :: "csv_state \<Rightarrow> char \<Rightarrow> csv_state" where
  "csv_step (acc, row, fld, FieldStart) c =
     (if c = dquote then (acc, row, [], Quoted)
      else if c = CHR '','' then end_field (acc, row, [], FieldStart)
      else if c = newline then end_row (acc, row, [], FieldStart)
      else (acc, row, [c], Plain))"
| "csv_step (acc, row, fld, Plain) c =
     (if c = dquote then (acc, row, fld, Malformed)
      else if c = CHR '','' then end_field (acc, row, fld, Plain)
      else if c = newline then end_row (acc, row, fld, Plain)
      else (acc, row, c # fld, Plain))"
| "csv_step (acc, row, fld, Quoted) c =
     (if c = dquote then (acc, row, fld, QuoteSeen) else (acc, row, c # fld, Quoted))"
| "csv_step (acc, row, fld, QuoteSeen) c =
     (if c = dquote then (acc, row, dquote # fld, Quoted)
      else if c = CHR '','' then end_field (acc, row, fld, QuoteSeen)
      else if c = newline then end_row (acc, row, fld, QuoteSeen)
      else (acc, row, fld, Malformed))"
| "csv_step (acc, row, fld, Malformed) c = (acc, row, fld, Malformed)"

definition csv_finish :: "csv_state \<Rightarrow> string list list option" where
  "csv_finish st =
     (case st of (acc, row, fld, m) \<Rightarrow>
        if m = Malformed \<or> m = Quoted then None
        else if m = FieldStart \<and> row = [] then Some (rev acc)
        else Some (rev (rev (rev fld # row) # acc)))"

definition parseCSV :: "string \<Rightarrow> string list list option" where
  "parseCSV text = csv_finish (foldl csv_step ([], [], [], FieldStart) text)"



text \<open>A submission of three selected services, and three stores: one that accepts every
  write, one that refuses the second line, one that refuses the request.\<close>

definition form0 :: form_inputs where
  "form0 =
     \<lparr> fullName = ''Alex Johnson'', email = ''alex@example.com'', phone = ''(555) 123-4567'',
       address = ''12 Main Street, Cape Town'', pickupDate = ''2026-11-03'',
       pickupTime = morning, notes' = None,
       quantities = [''svc1'' \<mapsto> Fin 4, ''svc2'' \<mapsto> Fin 1, ''svc3'' \<mapsto> Fin 2] \<rparr>"

definition store_ok :: submit_store where
  "store_ok =
     \<lparr> createLaundryRequest = (\<lambda>p. Inr ''req1''),
       addRequestService = (\<lambda>l. (1, Inr (''line-'' @ service_id l))) \<rparr>"


definition store_down :: submit_store where
  "store_down =
     \<lparr> createLaundryRequest = (\<lambda>p. Inl ''insert failed''),
       addRequestService = (\<lambda>l. (1, Inr (''line-'' @ service_id l))) \<rparr>"

text \<open>Three pending requests, a store that refuses the write to the second one, a store
  that refuses the write to the first one, and a batch selection of all three.\<close>

definition req0 :: "string \<Rightarrow> laundry_request" where
  "req0 i =
     \<lparr> r_id = i, r_customer_name = ''Alex Johnson'', r_customer_email = ''alex@example.com'',
       r_customer_phone = ''(555) 123-4567'', r_pickup_address = ''12 Main Street, Cape Town'',
       r_pickup_date = ''2026-11-03'', r_pickup_time_slot = ''Morning 8-12'',
       r_special_instructions = Some (''Gate code '' @ [CHR 0x22] @ ''42'' @ [CHR 0x22] @ '', ring twice''),
       r_status = pending, r_total_estimated_cost = Some ''10.00'', r_internal_notes = None,
       r_created_at = ''2026-11-02'' \<rparr>"

definition store_f2 :: request_store where
  "store_f2 =
     \<lparr> rows = [''#1'' \<mapsto> req0 ''#1'', ''#2'' \<mapsto> req0 ''#2'', ''#3'' \<mapsto> req0 ''#3''],
       write_fault = (\<lambda>i. if i = ''#2'' then Some ''timeout'' else None),
       no_row_error = ''no rows'' \<rparr>"

definition store_f1 :: request_store where
  "store_f1 =
     \<lparr> rows = [''#1'' \<mapsto> req0 ''#1'', ''#2'' \<mapsto> req0 ''#2'', ''#3'' \<mapsto> req0 ''#3''],
       write_fault = (\<lambda>i. if i = ''#1'' then Some ''denied'' else None),
       no_row_error = ''no rows'' \<rparr>"

definition adm0 :: admin_state where
  "adm0 =
     \<lparr> selectedRequests = [''#1'', ''#2'', ''#3''], batchStatus = confirmed, batchNotes = [],
       showBatchPanel = True, admin_toasts = [], reloads = 0 \<rparr>"


section \<open>Properties of the pricing\<close>



lemma selected_iff:
  "s \<in> set (selected items qs) \<longleftrightarrow>
     s \<in> set items \<and> (\<exists>q>0. qs (s_id s) = Some (Fin q))"
proof (cases "qs (s_id s)")
  case None
  then show ?thesis by (simp add: selected_def)
next
  case (Some n)
  then show ?thesis by (cases n) (auto simp: selected_def)
qed








section \<open>Properties of the validation\<close>

lemma validateField_error:
  "f_isValid (validateField rt v rules) \<longleftrightarrow> f_error (validateField rt v rules) = None"
  by (simp add: validateField_def invalid_def valid_def Let_def split: option.splits)


















section \<open>Properties of the sanitizers\<close>












section \<open>Properties of the submission\<close>




lemma selected_Nil_iff:
  "selected items q = [] \<longleftrightarrow> (\<forall>s\<in>set items. \<not> (\<exists>n>0. q (s_id s) = Some (Fin n)))"
proof -
  have "selected items q = [] \<longleftrightarrow> set (selected items q) = {}"
    by simp
  also have "\<dots> \<longleftrightarrow> (\<forall>s. s \<notin> set (selected items q))"
    by auto
  also have "\<dots> \<longleftrightarrow> (\<forall>s\<in>set items. \<not> (\<exists>n>0. q (s_id s) = Some (Fin n)))"
    by (auto simp: selected_iff)
  finally show ?thesis .
qed

text \<open>
  Claim C3. The writes of a submission, in the order they are issued: none at all, or the
  write that creates the request, issued and settled, followed by the line writes. When
  the request is refused no line write follows; when it is created there is one line
  write per selected service, each carrying the id of the created request.
\<close>

theorem C3_write_order:
  "\<exists>ls. snd (onSubmit rt st items data) =
          (if selected items (quantities data) = [] then []
           else [Issued (CreateRequest (payload_of rt items data)),
                 Settled (CreateRequest (payload_of rt items data))]
                @ map (\<lambda>l. Issued (AddService l)) ls)
      \<and> (\<forall>e. createLaundryRequest st (payload_of rt items data) = Inl e \<longrightarrow> ls = [])
      \<and> (\<forall>rid. createLaundryRequest st (payload_of rt items data) = Inr rid \<longrightarrow>
            ls = map (line_payload rt data rid) (selected items (quantities data)))"
proof (cases "createLaundryRequest st (payload_of rt items data)")
  case (Inl e)
  then show ?thesis
    by (intro exI [of _ "[]"]) (simp add: onSubmit_def Let_def)
next
  case (Inr rid)
  then show ?thesis
    by (intro exI [of _ "map (line_payload rt data rid) (selected items (quantities data))"])
       (simp add: onSubmit_def Let_def split: sum.splits)
qed

theorem C3_write_order_witness:
  "snd (onSubmit rt0 store_down [svc1, svc2, svc3] form0) =
     [Issued (CreateRequest (payload_of rt0 [svc1, svc2, svc3] form0)),
      Settled (CreateRequest (payload_of rt0 [svc1, svc2, svc3] form0))]
   \<and> snd (onSubmit rt0 store_ok [svc1, svc2, svc3] form0) =
     [Issued (CreateRequest (payload_of rt0 [svc1, svc2, svc3] form0)),
      Settled (CreateRequest (payload_of rt0 [svc1, svc2, svc3] form0)),
      Issued (AddService (line_payload rt0 form0 ''req1'' svc1)),
      Issued (AddService (line_payload rt0 form0 ''req1'' svc2)),
      Issued (AddService (line_payload rt0 form0 ''req1'' svc3))]"
proof -
  have sel: "selected [svc1, svc2, svc3] (quantities form0) = [svc1, svc2, svc3]"
    by (simp add: selected_def form0_def svc1_def svc2_def svc3_def)
  have down: "createLaundryRequest store_down (payload_of rt0 [svc1, svc2, svc3] form0)
                = Inl ''insert failed''"
    by (simp add: store_down_def)
  have ok: "createLaundryRequest store_ok (payload_of rt0 [svc1, svc2, svc3] form0) = Inr ''req1''"
    by (simp add: store_ok_def)
  show ?thesis
    using C3_write_order [of rt0 store_down "[svc1, svc2, svc3]" form0]
      C3_write_order [of rt0 store_ok "[svc1, svc2, svc3]" form0]
    by (auto simp: sel down ok)
qed




text \<open>
  Claim C8. When no service has a quantity greater than \<open>0\<close>, \<^verbatim>\<open>onSubmit\<close> sets the
  dedicated error and issues no write. The check is the first thing \<^verbatim>\<open>onSubmit\<close> does,
  and the form library calls \<^verbatim>\<open>onSubmit\<close> only after its field rules have passed: with a
  field error the check is not reached, and there is no write either.
\<close>

theorem C8_no_service_selected:
  assumes "\<forall>s\<in>set items. \<not> (\<exists>q>0. quantities data (s_id s) = Some (Fin q))"
  shows "onSubmit rt st items data = (no_service_selected, [])
       \<and> submitError no_service_selected
           = Some ''Please select at least one service with quantity > 0.''
       \<and> handleSubmit rt st items before data =
           (if field_errors data = [] then ([], no_service_selected, [])
            else (field_errors data, before, []))"
proof -
  have "selected items (quantities data) = []"
    using assms by (simp add: selected_Nil_iff)
  then have "onSubmit rt st items data = (no_service_selected, [])"
    by (simp add: onSubmit_def)
  then show ?thesis
    by (simp add: handleSubmit_def no_service_selected_def)
qed

theorem C8_no_service_selected_witness:
  "onSubmit rt0 store_ok [svc1, svc2, svc3] (form0 \<lparr> quantities := [''svc1'' \<mapsto> Fin 0] \<rparr>)
     = (no_service_selected, [])
   \<and> handleSubmit rt0 store_ok [svc1, svc2, svc3] submit_succeeded
       (form0 \<lparr> quantities := [''svc1'' \<mapsto> Fin 0] \<rparr>) = ([], no_service_selected, [])
   \<and> handleSubmit rt0 store_ok [svc1, svc2, svc3] submit_succeeded
       (form0 \<lparr> quantities := [''svc1'' \<mapsto> Fin 0], phone := [] \<rparr>)
       = ([(''phone'', ''Phone number is required'')], submit_succeeded, [])"
proof -
  have none: "\<forall>s\<in>set [svc1, svc2, svc3]. \<not> (\<exists>q>0.
      quantities (form0 \<lparr> quantities := [''svc1'' \<mapsto> Fin 0] \<rparr>) (s_id s) = Some (Fin q))"
    by (simp add: svc1_def svc2_def svc3_def)
  have none': "\<forall>s\<in>set [svc1, svc2, svc3]. \<not> (\<exists>q>0.
      quantities (form0 \<lparr> quantities := [''svc1'' \<mapsto> Fin 0], phone := [] \<rparr>) (s_id s)
        = Some (Fin q))"
    by (simp add: svc1_def svc2_def svc3_def)
  have f1: "field_errors (form0 \<lparr> quantities := [''svc1'' \<mapsto> Fin 0] \<rparr>) = []"
    by code_simp
  have f2: "field_errors (form0 \<lparr> quantities := [''svc1'' \<mapsto> Fin 0], phone := [] \<rparr>)
              = [(''phone'', ''Phone number is required'')]"
    by code_simp
  show ?thesis
    using C8_no_service_selected [OF none, of rt0 store_ok submit_succeeded]
      C8_no_service_selected [OF none', of rt0 store_ok submit_succeeded]
    by (simp add: f1 f2)
qed


section \<open>Properties of the batch update\<close>

lemma apply_patch_idem: "apply_patch p (apply_patch p r) = apply_patch p r"
  by (simp add: apply_patch_def Let_def split: option.splits)

lemma updateRequest_fault:
  "write_fault (snd (updateRequest st j p)) = write_fault st
   \<and> no_row_error (snd (updateRequest st j p)) = no_row_error st"
  by (simp add: updateRequest_def split: option.splits)

lemma updateRequest_rows:
  "rows (snd (updateRequest st j p)) i =
     (if i = j \<and> write_fault st j = None then map_option (apply_patch p) (rows st j)
      else rows st i)"
  by (auto simp: updateRequest_def split: option.splits)

lemma updateRequest_response:
  "fst (updateRequest st i p) =
     (case write_fault st i of
        Some e \<Rightarrow> Inl e
      | None \<Rightarrow> (case rows st i of None \<Rightarrow> Inl (no_row_error st) | Some r \<Rightarrow> Inr (apply_patch p r)))"
  by (simp add: updateRequest_def split: option.splits)

lemma response_after_update:
  "fst (updateRequest (snd (updateRequest st j p)) i p) = fst (updateRequest st i p)"
  by (simp add: updateRequest_response updateRequest_fault updateRequest_rows apply_patch_idem
      split: option.splits)

lemma update_each_results:
  "fst (update_each st p ids) = map (\<lambda>i. fst (updateRequest st i p)) ids"
proof (induction ids arbitrary: st)
  case Nil
  show ?case by simp
next
  case (Cons j ids)
  have "fst (update_each (snd (updateRequest st j p)) p ids) =
        map (\<lambda>i. fst (updateRequest (snd (updateRequest st j p)) i p)) ids"
    by (rule Cons.IH)
  then show ?case
    by (simp add: response_after_update split_beta Let_def)
qed

lemma update_each_rows:
  "rows (snd (update_each st p ids)) i =
     (if i \<in> set ids \<and> write_fault st i = None then map_option (apply_patch p) (rows st i)
      else rows st i)"
proof (induction ids arbitrary: st)
  case Nil
  show ?case by simp
next
  case (Cons j ids)
  let ?st = "snd (updateRequest st j p)"
  have "rows (snd (update_each ?st p ids)) i =
     (if i \<in> set ids \<and> write_fault ?st i = None then map_option (apply_patch p) (rows ?st i)
      else rows ?st i)"
    by (rule Cons.IH)
  then show ?case
    by (cases "rows st j")
       (auto simp: updateRequest_fault updateRequest_rows apply_patch_idem split_beta Let_def)
qed

text \<open>
  Claim C5 fails as stated: what the batch update reports is a count. With the write to
  the second order refused for one reason, or the write to the first order refused for
  another, the page is left in the same state: the outcome carries neither the ids that
  succeeded or failed nor the reasons.
\<close>

theorem C5_outcome_counts_only:
  "fst (handleBatchStatusUpdate rt0 store_f2 adm0) = fst (handleBatchStatusUpdate rt0 store_f1 adm0)
   \<and> admin_toasts (fst (handleBatchStatusUpdate rt0 store_f2 adm0))
       = [(''Updated 2 requests, 1 failed'', error)]
   \<and> map (\<lambda>i. fst (updateRequest store_f2 i (batch_patch adm0))) (selectedRequests adm0)
       = [Inr (req0 ''#1'' \<lparr> r_status := confirmed \<rparr>), Inl ''timeout'',
          Inr (req0 ''#3'' \<lparr> r_status := confirmed \<rparr>)]
   \<and> map (\<lambda>i. fst (updateRequest store_f1 i (batch_patch adm0))) (selectedRequests adm0)
       = [Inl ''denied'', Inr (req0 ''#2'' \<lparr> r_status := confirmed \<rparr>),
          Inr (req0 ''#3'' \<lparr> r_status := confirmed \<rparr>)]"
  by (simp add: handleBatchStatusUpdate_def update_each_results updateRequest_response
      batch_patch_def adm0_def store_f1_def store_f2_def rt0_def is_failed_def apply_patch_def
      Let_def)

text \<open>
  Claim C5, amended. The batch update issues one update write per selected id, in the
  order of the selection. The write to an id the store accepts is committed whatever
  happens to the other ids (the row has the new status afterwards), the rows of refused
  or unselected ids are unchanged, and nothing is undone. The outcome it reports is a
  count: when no write failed, a success toast with the number of requests (and the
  selection is cleared and the list reloaded); otherwise an error toast with the number of
  writes that succeeded and the number that failed.
\<close>

theorem C5_batch_update:
  assumes "selectedRequests s \<noteq> []"
  shows "(let ids = selectedRequests s;
            p = batch_patch s;
            failed = filter (\<lambda>i. is_failed (fst (updateRequest st i p))) ids;
            s' = fst (handleBatchStatusUpdate rt st s);
            st' = fst (snd (handleBatchStatusUpdate rt st s));
            issued = snd (snd (handleBatchStatusUpdate rt st s))
        in issued = map (\<lambda>i. (i, p)) ids
         \<and> (\<forall>i\<in>set ids. \<forall>r. write_fault st i = None \<and> rows st i = Some r \<longrightarrow>
               rows st' i = Some (apply_patch p r) \<and> r_status (apply_patch p r) = batchStatus s)
         \<and> (\<forall>i. i \<notin> set ids \<or> write_fault st i \<noteq> None \<longrightarrow> rows st' i = rows st i)
         \<and> (failed = [] \<longrightarrow>
               s' = s \<lparr> selectedRequests := [], showBatchPanel := False, batchNotes := [],
                        admin_toasts := admin_toasts s @
                          [(''Updated '' @ String_num rt (Fin (of_nat (length ids)))
                              @ '' requests successfully'', success)],
                        reloads := Suc (reloads s) \<rparr>)
         \<and> (failed \<noteq> [] \<longrightarrow>
               s' = s \<lparr> admin_toasts := admin_toasts s @
                          [(''Updated ''
                              @ String_num rt (Fin (of_nat (length ids) - of_nat (length failed)))
                              @ '' requests, '' @ String_num rt (Fin (of_nat (length failed)))
                              @ '' failed'', error)] \<rparr>))"
proof -
  let ?ids = "selectedRequests s"
  let ?p = "batch_patch s"
  let ?failed = "filter (\<lambda>i. is_failed (fst (updateRequest st i ?p))) ?ids"
  have flt: "filter is_failed (fst (update_each st ?p ?ids)) =
        map (\<lambda>i. fst (updateRequest st i ?p)) ?failed"
    by (simp add: update_each_results filter_map comp_def)
  have len: "length (fst (update_each st ?p ?ids)) = length ?ids"
    by (simp add: update_each_results)
  have store: "fst (snd (handleBatchStatusUpdate rt st s)) = snd (update_each st ?p ?ids)"
    using assms by (simp add: handleBatchStatusUpdate_def Let_def)
  have issued: "snd (snd (handleBatchStatusUpdate rt st s)) = map (\<lambda>i. (i, ?p)) ?ids"
    using assms by (simp add: handleBatchStatusUpdate_def Let_def)
  have status: "r_status (apply_patch ?p r) = batchStatus s" for r
    by (simp add: apply_patch_def batch_patch_def Let_def split: option.splits)
  have ok: "?failed = [] \<Longrightarrow> fst (handleBatchStatusUpdate rt st s) =
      s \<lparr> selectedRequests := [], showBatchPanel := False, batchNotes := [],
          admin_toasts := admin_toasts s @
            [(''Updated '' @ String_num rt (Fin (of_nat (length ?ids)))
                @ '' requests successfully'', success)],
          reloads := Suc (reloads s) \<rparr>"
    using assms by (simp add: handleBatchStatusUpdate_def Let_def flt)
  have ko: "?failed \<noteq> [] \<Longrightarrow> fst (handleBatchStatusUpdate rt st s) =
      s \<lparr> admin_toasts := admin_toasts s @
            [(''Updated ''
                @ String_num rt (Fin (of_nat (length ?ids) - of_nat (length ?failed)))
                @ '' requests, '' @ String_num rt (Fin (of_nat (length ?failed)))
                @ '' failed'', error)] \<rparr>"
    using assms by (simp add: handleBatchStatusUpdate_def Let_def flt len)
  show ?thesis
    unfolding Let_def
    using issued ok ko by (auto simp: store update_each_rows status)
qed

theorem C5_batch_update_witness:
  "rows (fst (snd (handleBatchStatusUpdate rt0 store_f2 adm0))) ''#1''
     = Some (req0 ''#1'' \<lparr> r_status := confirmed \<rparr>)
   \<and> rows (fst (snd (handleBatchStatusUpdate rt0 store_f2 adm0))) ''#2'' = Some (req0 ''#2'')
   \<and> rows (fst (snd (handleBatchStatusUpdate rt0 store_f2 adm0))) ''#3''
     = Some (req0 ''#3'' \<lparr> r_status := confirmed \<rparr>)
   \<and> snd (snd (handleBatchStatusUpdate rt0 store_f2 adm0))
     = [(''#1'', batch_patch adm0), (''#2'', batch_patch adm0), (''#3'', batch_patch adm0)]
   \<and> admin_toasts (fst (handleBatchStatusUpdate rt0 store_f2 adm0))
     = [(''Updated 2 requests, 1 failed'', error)]"
proof -
  have sel: "selectedRequests adm0 \<noteq> []"
    by (simp add: adm0_def)
  have failed: "filter (\<lambda>i. is_failed (fst (updateRequest store_f2 i (batch_patch adm0))))
                  (selectedRequests adm0) = [''#2'']"
    by (simp add: updateRequest_response adm0_def store_f2_def is_failed_def)
  have patch: "apply_patch (batch_patch adm0) (req0 i) = req0 i \<lparr> r_status := confirmed \<rparr>" for i
    by (simp add: apply_patch_def batch_patch_def adm0_def)
  have ids: "selectedRequests adm0 = [''#1'', ''#2'', ''#3'']"
    by (simp add: adm0_def)
  have store:
    "write_fault store_f2 ''#1'' = None" "rows store_f2 ''#1'' = Some (req0 ''#1'')"
    "write_fault store_f2 ''#2'' \<noteq> None" "rows store_f2 ''#2'' = Some (req0 ''#2'')"
    "write_fault store_f2 ''#3'' = None" "rows store_f2 ''#3'' = Some (req0 ''#3'')"
    by (simp_all add: store_f2_def)
  let ?st' = "fst (snd (handleBatchStatusUpdate rt0 store_f2 adm0))"
  note batch = C5_batch_update [OF sel, of store_f2 rt0, unfolded Let_def failed]
  from batch have "snd (snd (handleBatchStatusUpdate rt0 store_f2 adm0))
      = map (\<lambda>i. (i, batch_patch adm0)) (selectedRequests adm0)"
    by blast
  then have issued: "snd (snd (handleBatchStatusUpdate rt0 store_f2 adm0))
     = [(''#1'', batch_patch adm0), (''#2'', batch_patch adm0), (''#3'', batch_patch adm0)]"
    by (simp add: ids)
  from batch have committed: "\<forall>i\<in>set (selectedRequests adm0). \<forall>r.
      write_fault store_f2 i = None \<and> rows store_f2 i = Some r \<longrightarrow>
        rows ?st' i = Some (apply_patch (batch_patch adm0) r)
        \<and> r_status (apply_patch (batch_patch adm0) r) = batchStatus adm0"
    by blast
  have r1: "rows ?st' ''#1'' = Some (req0 ''#1'' \<lparr> r_status := confirmed \<rparr>)"
    using committed store(1,2) by (simp add: ids patch)
  have r3: "rows ?st' ''#3'' = Some (req0 ''#3'' \<lparr> r_status := confirmed \<rparr>)"
    using committed store(5,6) by (simp add: ids patch)
  from batch have "\<forall>i. i \<notin> set (selectedRequests adm0) \<or> write_fault store_f2 i \<noteq> None \<longrightarrow>
      rows ?st' i = rows store_f2 i"
    by blast
  then have r2: "rows ?st' ''#2'' = Some (req0 ''#2'')"
    using store(3,4) by simp
  from batch have "fst (handleBatchStatusUpdate rt0 store_f2 adm0) =
      adm0 \<lparr> admin_toasts := admin_toasts adm0 @
            [(''Updated ''
                @ String_num rt0 (Fin (of_nat (length (selectedRequests adm0)) - of_nat (length [''#2''])))
                @ '' requests, '' @ String_num rt0 (Fin (of_nat (length [''#2''])))
                @ '' failed'', error)] \<rparr>"
    by blast
  then have toast: "admin_toasts (fst (handleBatchStatusUpdate rt0 store_f2 adm0))
     = [(''Updated 2 requests, 1 failed'', error)]"
    by (simp add: adm0_def rt0_def)
  show ?thesis
    using r1 r2 r3 issued toast by simp
qed


section \<open>Properties of the CSV export\<close>

lemma run_escaped:
  "foldl csv_step (acc, row, fld, Quoted)
     (concat (map (\<lambda>c. if c = dquote then [dquote, dquote] else [c]) f))
   = (acc, row, rev f @ fld, Quoted)"
  by (induction f arbitrary: fld) simp_all

lemma run_field:
  "foldl csv_step (acc, row, [], FieldStart) (csv_field f) = (acc, row, rev f, QuoteSeen)"
  by (simp add: csv_field_def run_escaped)

lemma run_field_comma:
  "foldl csv_step (acc, row, [], FieldStart) (csv_field f @ '','' @ rest)
   = foldl csv_step (acc, f # row, [], FieldStart) rest"
  by (simp add: run_field end_field_def dquote_def)

lemma join_Cons: "ys \<noteq> [] \<Longrightarrow> join sep (x # ys) = x @ sep @ join sep ys"
  by (cases ys) simp_all

lemma run_row:
  "fs \<noteq> [] \<Longrightarrow>
   foldl csv_step (acc, row, [], FieldStart) (join '','' (map csv_field fs))
   = (acc, rev (butlast fs) @ row, rev (last fs), QuoteSeen)"
proof (induction fs arbitrary: row)
  case Nil
  then show ?case by simp
next
  case (Cons f fs)
  show ?case
  proof (cases "fs = []")
    case True
    then show ?thesis by (simp add: run_field)
  next
    case False
    have "foldl csv_step (acc, row, [], FieldStart) (join '','' (map csv_field (f # fs)))
        = foldl csv_step (acc, row, [], FieldStart)
            (csv_field f @ '','' @ join '','' (map csv_field fs))"
      using False by (simp add: join_Cons)
    also have "\<dots> = foldl csv_step (acc, f # row, [], FieldStart) (join '','' (map csv_field fs))"
      by (rule run_field_comma)
    also have "\<dots> = (acc, rev (butlast fs) @ f # row, rev (last fs), QuoteSeen)"
      using False by (rule Cons.IH)
    finally show ?thesis
      using False by simp
  qed
qed

lemma run_row_newline:
  assumes "fs \<noteq> []"
  shows "foldl csv_step (acc, [], [], FieldStart)
           (join '','' (map csv_field fs) @ [newline] @ rest)
         = foldl csv_step (fs # acc, [], [], FieldStart) rest"
proof -
  have "rev (rev (rev (last fs)) # rev (butlast fs)) = fs"
    using assms by simp
  then show ?thesis
    using assms by (simp add: run_row end_row_def dquote_def newline_def)
qed

lemma run_table:
  "rs \<noteq> [] \<Longrightarrow> \<forall>r\<in>set rs. r \<noteq> [] \<Longrightarrow>
   foldl csv_step (acc, [], [], FieldStart)
     (join [newline] (map (\<lambda>row. join '','' (map csv_field row)) rs))
   = (rev (butlast rs) @ acc, rev (butlast (last rs)), rev (last (last rs)), QuoteSeen)"
proof (induction rs arbitrary: acc)
  case Nil
  then show ?case by simp
next
  case (Cons r rs)
  let ?w = "\<lambda>row. join '','' (map csv_field row)"
  from Cons.prems have r: "r \<noteq> []" and rs: "\<forall>r\<in>set rs. r \<noteq> []"
    by simp_all
  show ?case
  proof (cases "rs = []")
    case True
    then show ?thesis using r by (simp add: run_row)
  next
    case False
    have "foldl csv_step (acc, [], [], FieldStart) (join [newline] (map ?w (r # rs)))
        = foldl csv_step (acc, [], [], FieldStart) (?w r @ [newline] @ join [newline] (map ?w rs))"
      using False by (simp add: join_Cons)
    also have "\<dots> = foldl csv_step (r # acc, [], [], FieldStart) (join [newline] (map ?w rs))"
      using r by (rule run_row_newline)
    also have "\<dots> = (rev (butlast rs) @ r # acc, rev (butlast (last rs)),
                       rev (last (last rs)), QuoteSeen)"
      using False rs by (rule Cons.IH)
    finally show ?thesis
      using False by simp
  qed
qed

lemma parseCSV_written:
  assumes "rs \<noteq> []" and "\<forall>r\<in>set rs. r \<noteq> []"
  shows "parseCSV (join [newline] (map (\<lambda>row. join '','' (map csv_field row)) rs)) = Some rs"
proof -
  have "last rs \<noteq> []"
    using assms by simp
  then have "butlast (last rs) @ [last (last rs)] = last rs"
    by simp
  moreover have "butlast rs @ [last rs] = rs"
    using assms(1) by simp
  ultimately show ?thesis
    using assms by (simp add: parseCSV_def run_table csv_finish_def)
qed

text \<open>
  Claim C6. The export writes the header and one row per request with the columns in
  the fixed order, every field in double quotes with each double quote inside it doubled.
  Reading the text back gives the header and the rows again, field by field; in
  particular the special instructions of a request are recovered exactly, whatever
  characters (double quotes, commas, line breaks) they contain.
\<close>

theorem C6_csv_round_trip:
  "\<exists>table. parseCSV (snd (exportToCSV rt requests filename)) = Some table
     \<and> snd (exportToCSV rt requests filename)
         = join [newline] (map (\<lambda>row. join '','' (map csv_field row)) table)
     \<and> length table = Suc (length requests)
     \<and> table ! 0 =
         [''ID'', ''Customer Name'', ''Customer Email'', ''Customer Phone'', ''Pickup Date'',
          ''Pickup Time'', ''Pickup Address'', ''Status'', ''Total Cost'',
          ''Special Instructions'', ''Internal Notes'', ''Created At'']
     \<and> (\<forall>i<length requests.
           table ! Suc i =
             [r_id (requests ! i), r_customer_name (requests ! i),
              r_customer_email (requests ! i), r_customer_phone (requests ! i),
              r_pickup_date (requests ! i), r_pickup_time_slot (requests ! i),
              r_pickup_address (requests ! i), status_string (r_status (requests ! i)),
              (case r_total_estimated_cost (requests ! i) of
                 Some c \<Rightarrow> if c = [] then String_num rt (Fin 0) else c
               | None \<Rightarrow> String_num rt (Fin 0)),
              or_empty (r_special_instructions (requests ! i)),
              or_empty (r_internal_notes (requests ! i)),
              toLocaleString rt (Date_parse rt (r_created_at (requests ! i)))]
           \<and> (\<forall>s. r_special_instructions (requests ! i) = Some s \<longrightarrow> table ! Suc i ! 9 = s))"
proof -
  let ?table = "csv_headers # map (csv_row rt) requests"
  have "\<forall>r\<in>set ?table. r \<noteq> []"
    by (auto simp: csv_headers_def csv_row_def)
  then have "parseCSV (join [newline] (map (\<lambda>row. join '','' (map csv_field row)) ?table))
      = Some ?table"
    by (intro parseCSV_written) simp
  then have "parseCSV (snd (exportToCSV rt requests filename)) = Some ?table"
    by (simp only: exportToCSV_def csvContent_def snd_conv)
  moreover have "snd (exportToCSV rt requests filename)
         = join [newline] (map (\<lambda>row. join '','' (map csv_field row)) ?table)"
    by (simp add: exportToCSV_def csvContent_def)
  moreover have "\<forall>s. r_special_instructions (requests ! i) = Some s \<longrightarrow>
      csv_row rt (requests ! i) ! 9 = s" for i
    by (simp add: csv_row_def or_empty_def)
  ultimately show ?thesis
    by (intro exI [of _ ?table]) (simp add: csv_headers_def csv_row_def)
qed

theorem C6_csv_round_trip_witness:
  "\<exists>table. parseCSV (snd (exportToCSV rt0 [req0 ''#1''] None)) = Some table
     \<and> table ! 1 ! 9 = ''Gate code '' @ [CHR 0x22] @ ''42'' @ [CHR 0x22] @ '', ring twice''"
proof -
  have s: "r_special_instructions ([req0 ''#1''] ! 0)
             = Some (''Gate code '' @ [CHR 0x22] @ ''42'' @ [CHR 0x22] @ '', ring twice'')"
    by (simp add: req0_def)
  obtain table where t: "parseCSV (snd (exportToCSV rt0 [req0 ''#1''] None)) = Some table"
    and rows: "\<forall>i<length [req0 ''#1''].
        (\<forall>s. r_special_instructions ([req0 ''#1''] ! i) = Some s \<longrightarrow> table ! Suc i ! 9 = s)"
    using C6_csv_round_trip [of rt0 "[req0 ''#1'']" None] by blast
  from rows s have "table ! 1 ! 9 = ''Gate code '' @ [CHR 0x22] @ ''42'' @ [CHR 0x22] @ '', ring twice''"
    by simp
  with t show ?thesis by blast
qed

end
